theory Spec2Isabelle
  imports Main "HOL-Library.Sublist" "HOL-Library.Multiset"
begin

section \<open>Text and bytes\<close>

text \<open>
  A Python \<^verbatim>\<open>str\<close> is a sequence of Unicode code points; it is modelled as a list of
  natural numbers. The bytes of a file are a \<^typ>\<open>string\<close> (a list of 8-bit characters).
  \<open>str\<close> writes an ASCII literal of the source as a list of code points.
\<close>

type_synonym pystr = "nat list"

definition str :: "string \<Rightarrow> pystr" where
  "str s = map of_char s"

text \<open>The control characters of the source's literals: \<^verbatim>\<open>"\t"\<close>, \<^verbatim>\<open>"\n"\<close>, \<^verbatim>\<open>"\r"\<close>.\<close>

abbreviation TAB :: nat where "TAB \<equiv> 9"
abbreviation LF :: nat where "LF \<equiv> 10"
abbreviation CR :: nat where "CR \<equiv> 13"

text \<open>\<^verbatim>\<open>sep.join(xs)\<close>\<close>

fun join :: "pystr \<Rightarrow> pystr list \<Rightarrow> pystr" where
  "join sep [] = []"
| "join sep [x] = x"
| "join sep (x # y # ys) = x @ sep @ join sep (y # ys)"

text \<open>\<^verbatim>\<open>s.endswith(suf)\<close>\<close>

definition endswith :: "pystr \<Rightarrow> pystr \<Rightarrow> bool" where
  "endswith s suf = (length suf \<le> length s \<and> drop (length s - length suf) s = suf)"

text \<open>
  \<^verbatim>\<open>str.isspace\<close> on one code point, as CPython's table of whitespace has it, and
  \<^verbatim>\<open>s.strip()\<close>, which removes the leading and the trailing whitespace.
\<close>

definition isspace :: "nat \<Rightarrow> bool" where
  "isspace c = ((9 \<le> c \<and> c \<le> 13) \<or> (28 \<le> c \<and> c \<le> 32) \<or> c = 133 \<or> c = 160
     \<or> c = 5760 \<or> (8192 \<le> c \<and> c \<le> 8202) \<or> c = 8232 \<or> c = 8233 \<or> c = 8239
     \<or> c = 8287 \<or> c = 12288)"

definition strip :: "pystr \<Rightarrow> pystr" where
  "strip s = rev (dropWhile isspace (rev (dropWhile isspace s)))"

text \<open>\<^verbatim>\<open>os.path.basename(p)\<close> on POSIX: what follows the last slash.\<close>

definition basename :: "pystr \<Rightarrow> pystr" where
  "basename p = rev (takeWhile (\<lambda>c. c \<noteq> 47) (rev p))"

section \<open>Errors\<close>

text \<open>
  The exceptions the program can meet. None is caught but the one raised by
  \<^verbatim>\<open>psycopg2.connect\<close>.
\<close>

datatype py_error =
    KeyError pystr
  | FileNotFoundError pystr
  | BadGzipFile
  | UnicodeDecodeError
  | OperationalError
  | DatabaseError
  | TypeError

section \<open>The header lists and the mapping\<close>

definition NAME_COLS :: "pystr list" where
  "NAME_COLS = [str ''nconst'', str ''primaryName'', str ''birthYear'', str ''deathYear'',
     str ''primaryProfession'', str ''knownForTitles'']"

definition TITLE_COLS :: "pystr list" where
  "TITLE_COLS = [str ''tconst'', str ''titleType'', str ''primaryTitle'', str ''originalTitle'',
     str ''isAdult'', str ''startYear'', str ''endYear'', str ''runtimeMinutes'', str ''genres'']"

definition RATING_COLS :: "pystr list" where
  "RATING_COLS = [str ''tconst'', str ''averageRating'', str ''numVotes'']"

text \<open>The dictionary literal of \<^verbatim>\<open>copy_tsv\<close>, in the order it is written.\<close>

definition mapping_items :: "(pystr \<times> pystr) list" where
  "mapping_items =
    [(str ''nconst'', str ''nconst''),
     (str ''primaryName'', str ''primary_name''),
     (str ''birthYear'', str ''birth_year''),
     (str ''deathYear'', str ''death_year''),
     (str ''primaryProfession'', str ''primary_profession''),
     (str ''knownForTitles'', str ''known_for_titles''),
     (str ''tconst'', str ''tconst''),
     (str ''titleType'', str ''title_type''),
     (str ''primaryTitle'', str ''primary_title''),
     (str ''originalTitle'', str ''original_title''),
     (str ''isAdult'', str ''is_adult''),
     (str ''startYear'', str ''start_year''),
     (str ''endYear'', str ''end_year''),
     (str ''runtimeMinutes'', str ''runtime_minutes''),
     (str ''genres'', str ''genres''),
     (str ''averageRating'', str ''average_rating''),
     (str ''numVotes'', str ''num_votes'')]"

definition mapping :: "pystr \<rightharpoonup> pystr" where
  "mapping = map_of mapping_items"

text \<open>
  \<^verbatim>\<open>ordered_table_cols = [mapping[c] for c in tsv_header_cols_in_order]\<close>: the
  comprehension looks the names up from left to right, and the first name that is not a
  key of the dictionary raises \<^verbatim>\<open>KeyError\<close>.
\<close>

fun ordered_table_cols :: "pystr list \<Rightarrow> py_error + pystr list" where
  "ordered_table_cols [] = Inr []"
| "ordered_table_cols (c # cs) =
     (case mapping c of
        None \<Rightarrow> Inl (KeyError c)
      | Some d \<Rightarrow>
          (case ordered_table_cols cs of
             Inl e \<Rightarrow> Inl e
           | Inr ds \<Rightarrow> Inr (d # ds)))"

section \<open>The environment: files, codecs and the database server\<close>

text \<open>
  What the program reaches through \<^verbatim>\<open>open\<close>, \<^verbatim>\<open>gzip\<close>, the UTF-8 codec and
  \<^verbatim>\<open>psycopg2\<close> is a parameter of the model:
  \<^item> \<open>fs_bytes path\<close>: the bytes of the file at \<open>path\<close>, \<open>None\<close> when it cannot be opened;
  \<^item> \<open>gzip_decompress\<close>: the decompressed bytes of a gzip stream, \<open>None\<close> when the bytes
    are not one;
  \<^item> \<open>utf8_decode\<close>: the code points of a byte sequence, \<open>None\<close> when it is not UTF-8;
  \<^item> \<open>pg_connect dsn\<close>: the committed contents of the database behind \<open>dsn\<close>, or the
    error \<^verbatim>\<open>psycopg2.connect\<close> raises;
  \<^item> \<open>pg_refuses\<close>: the requests the server rejects (unknown columns, column types,
    primary keys, privileges);
  \<^item> \<open>pg_copy_rows stmt body tb\<close>: the rows the server reads from the body of a
    \<^verbatim>\<open>COPY\<close> under the options of \<open>stmt\<close> for the table \<open>tb\<close>, \<open>None\<close> when it
    rejects the body. How the server finds the lines and the fields of the body, which
    fields it takes as NULL and how it converts the others is its own matter.
\<close>

text \<open>
  A table has named columns and rows; a row gives every column a value or SQL NULL
  (\<open>None\<close>). The database maps (schema, table) to the table.
\<close>

record table =
  t_columns :: "pystr list"
  t_rows :: "pystr option list list"

type_synonym database = "(pystr \<times> pystr) \<rightharpoonup> table"

text \<open>
  The statements the program composes with \<^verbatim>\<open>psycopg2.sql\<close>, by their parts: the
  identifiers filled into the template, and for \<^verbatim>\<open>COPY\<close> the options of the template
  \<^verbatim>\<open>FORMAT TEXT, DELIMITER E'\t', NULL '\\N'\<close> (the Python literal holds a tab character
  and the two characters backslash, N).
\<close>

datatype sql_stmt =
    CreateSchema pystr
  | CreateTable pystr pystr "pystr list"
  | CreateIndex pystr pystr pystr
  | TruncateTable pystr pystr
  | CopyFromStdin pystr pystr "pystr list" nat pystr
  | SelectCount pystr pystr

text \<open>
  A request of a cursor: \<^verbatim>\<open>cur.execute(stmt)\<close>, or \<^verbatim>\<open>cur.copy_expert(stmt, f)\<close>
  with what is left to read of the stream \<open>f\<close>.
\<close>

datatype request =
    Execute sql_stmt
  | CopyExpert sql_stmt pystr

record env =
  fs_bytes :: "pystr \<Rightarrow> string option"
  gzip_decompress :: "string \<Rightarrow> string option"
  utf8_decode :: "string \<Rightarrow> pystr option"
  pg_connect :: "pystr \<Rightarrow> py_error + database"
  pg_refuses :: "request \<Rightarrow> database \<Rightarrow> bool"
  pg_copy_rows :: "sql_stmt \<Rightarrow> pystr \<Rightarrow> table \<Rightarrow> pystr option list list option"

subsection \<open>The effect of a request\<close>

text \<open>
  What the model fixes of the server: \<^verbatim>\<open>CREATE TABLE IF NOT EXISTS\<close> makes an empty
  table where there is none, \<^verbatim>\<open>TRUNCATE\<close> empties a table, \<^verbatim>\<open>COPY\<close> adds the rows the
  server reads from the body after the rows the table holds, an empty body holds no row,
  and \<^verbatim>\<open>SELECT COUNT(*)\<close> answers with the number of rows of the table. \<open>None\<close> is an
  error of the server; the count is the second component. Schemas and indexes hold no
  rows and are not tracked.
\<close>

definition copy_body_rows :: "env \<Rightarrow> sql_stmt \<Rightarrow> pystr \<Rightarrow> table \<Rightarrow> pystr option list list option" where
  "copy_body_rows env stmt body tb = (if body = [] then Some [] else pg_copy_rows env stmt body tb)"

fun pg_apply :: "env \<Rightarrow> request \<Rightarrow> database \<Rightarrow> (database \<times> nat option) option" where
  "pg_apply env (Execute (CreateSchema s)) db = Some (db, None)"
| "pg_apply env (Execute (CreateTable s t cols)) db =
     (case db (s, t) of
        None \<Rightarrow> Some (db((s, t) \<mapsto> \<lparr>t_columns = cols, t_rows = []\<rparr>), None)
      | Some _ \<Rightarrow> Some (db, None))"
| "pg_apply env (Execute (CreateIndex i s t)) db =
     (case db (s, t) of None \<Rightarrow> None | Some _ \<Rightarrow> Some (db, None))"
| "pg_apply env (Execute (TruncateTable s t)) db =
     (case db (s, t) of
        None \<Rightarrow> None
      | Some tb \<Rightarrow> Some (db((s, t) \<mapsto> tb\<lparr>t_rows := []\<rparr>), None))"
| "pg_apply env (Execute (SelectCount s t)) db =
     (case db (s, t) of
        None \<Rightarrow> None
      | Some tb \<Rightarrow> Some (db, Some (length (t_rows tb))))"
| "pg_apply env (Execute (CopyFromStdin s t cols delim null)) db = None"
| "pg_apply env (CopyExpert (CopyFromStdin s t cols delim null) body) db =
     (case db (s, t) of
        None \<Rightarrow> None
      | Some tb \<Rightarrow>
          (case copy_body_rows env (CopyFromStdin s t cols delim null) body tb of
             None \<Rightarrow> None
           | Some rows \<Rightarrow> Some (db((s, t) \<mapsto> tb\<lparr>t_rows := t_rows tb @ rows\<rparr>), None)))"
| "pg_apply env (CopyExpert _ body) db = None"

definition pg_request :: "env \<Rightarrow> request \<Rightarrow> database \<Rightarrow> (database \<times> nat option) option" where
  "pg_request env req db = (if pg_refuses env req db then None else pg_apply env req db)"

section \<open>The process\<close>

text \<open>
  A connection holds the committed database and the database as the open transaction
  sees it. The process state adds what was printed and the requests sent so far.
\<close>

record connection =
  committed :: database
  working :: database

datatype event =
    HeaderMismatch pystr
  | Loaded nat pystr pystr pystr
  | Done
  | FailedToConnect py_error
  | Traceback py_error

record proc =
  p_conn :: connection
  p_out :: "event list"
  p_sent :: "request list"

text \<open>A call returns a value and the new state, or raises with the state it leaves.\<close>

datatype 'a outcome =
    Return 'a proc
  | Raise py_error proc

text \<open>
  A request through a cursor: it is sent, and the server's error is
  \<^verbatim>\<open>psycopg2.DatabaseError\<close>.
\<close>

definition cur_request :: "env \<Rightarrow> request \<Rightarrow> proc \<Rightarrow> nat option outcome" where
  "cur_request env req p =
     (let p' = p\<lparr>p_sent := p_sent p @ [req]\<rparr> in
      case pg_request env req (working (p_conn p)) of
        None \<Rightarrow> Raise DatabaseError p'
      | Some (db, res) \<Rightarrow> Return res (p'\<lparr>p_conn := (p_conn p)\<lparr>working := db\<rparr>\<rparr>))"

text \<open>\<^verbatim>\<open>conn.commit()\<close>\<close>

definition commit :: "proc \<Rightarrow> proc" where
  "commit p = p\<lparr>p_conn := (p_conn p)\<lparr>committed := working (p_conn p)\<rparr>\<rparr>"

text \<open>\<^verbatim>\<open>print(...)\<close>\<close>

definition print_event :: "event \<Rightarrow> proc \<Rightarrow> proc" where
  "print_event e p = p\<lparr>p_out := p_out p @ [e]\<rparr>"

subsection \<open>\<^verbatim>\<open>open_textmaybe_gz\<close>\<close>

text \<open>
  The stream is modelled by its whole text. Both branches pass \<^verbatim>\<open>newline=""\<close>, so no
  line ending is translated. An error of the file, of the decompression or of the
  decoding is raised where the stream is opened (the program meets it at the read that
  reaches it, in either case before \<^verbatim>\<open>conn.commit()\<close>).
\<close>

text \<open>\<^verbatim>\<open>open(path, "r", encoding="utf-8", newline="")\<close>\<close>

definition open_text :: "env \<Rightarrow> pystr \<Rightarrow> py_error + pystr" where
  "open_text env path =
     (case fs_bytes env path of
        None \<Rightarrow> Inl (FileNotFoundError path)
      | Some b \<Rightarrow>
          (case utf8_decode env b of
             None \<Rightarrow> Inl UnicodeDecodeError
           | Some t \<Rightarrow> Inr t))"

text \<open>\<^verbatim>\<open>io.TextIOWrapper(gzip.open(path, "rb"), encoding="utf-8", newline="")\<close>\<close>

definition gzip_open_text :: "env \<Rightarrow> pystr \<Rightarrow> py_error + pystr" where
  "gzip_open_text env path =
     (case fs_bytes env path of
        None \<Rightarrow> Inl (FileNotFoundError path)
      | Some b \<Rightarrow>
          (case gzip_decompress env b of
             None \<Rightarrow> Inl BadGzipFile
           | Some raw \<Rightarrow>
               (case utf8_decode env raw of
                  None \<Rightarrow> Inl UnicodeDecodeError
                | Some t \<Rightarrow> Inr t)))"

definition open_textmaybe_gz :: "env \<Rightarrow> pystr \<Rightarrow> py_error + pystr" where
  "open_textmaybe_gz env path =
     (if endswith path (str ''.gz'') then gzip_open_text env path else open_text env path)"

text \<open>
  \<^verbatim>\<open>f.readline()\<close> on a text stream opened with \<^verbatim>\<open>newline=""\<close>: the line ends after
  the first \<^verbatim>\<open>\n\<close>, \<^verbatim>\<open>\r\n\<close> or \<^verbatim>\<open>\r\<close>, which it keeps, or at the end of the stream.
  The result is the line and what is left to read.
\<close>

fun readline :: "pystr \<Rightarrow> pystr \<times> pystr" where
  "readline [] = ([], [])"
| "readline (c # cs) =
     (if c = LF then ([c], cs)
      else if c = CR then
        (case cs of
           [] \<Rightarrow> ([c], [])
         | d # ds \<Rightarrow> if d = LF then ([c, d], ds) else ([c], cs))
      else (case readline cs of (l, r) \<Rightarrow> (c # l, r)))"

subsection \<open>\<^verbatim>\<open>run_ddl\<close> and \<^verbatim>\<open>truncate_table\<close>\<close>

text \<open>
  \<^verbatim>\<open>DDL_STATEMENTS\<close>, each a function of the schema name: the schema, the three tables
  with their columns in the order of the \<^verbatim>\<open>CREATE TABLE\<close>, the two indexes. The
  column types and the primary keys of the SQL text are not part of the statement's
  model; what the server rejects because of them is covered by \<open>pg_refuses\<close>.
\<close>

definition DDL_STATEMENTS :: "(pystr \<Rightarrow> sql_stmt) list" where
  "DDL_STATEMENTS =
    [\<lambda>schema. CreateSchema schema,
     \<lambda>schema. CreateTable schema (str ''name_basics'')
        [str ''nconst'', str ''primary_name'', str ''birth_year'', str ''death_year'',
         str ''primary_profession'', str ''known_for_titles''],
     \<lambda>schema. CreateTable schema (str ''title_basics'')
        [str ''tconst'', str ''title_type'', str ''primary_title'', str ''original_title'',
         str ''is_adult'', str ''start_year'', str ''end_year'', str ''runtime_minutes'',
         str ''genres''],
     \<lambda>schema. CreateTable schema (str ''title_ratings'')
        [str ''tconst'', str ''average_rating'', str ''num_votes''],
     \<lambda>schema. CreateIndex (str ''idx_title_basics_type'') schema (str ''title_basics''),
     \<lambda>schema. CreateIndex (str ''idx_title_ratings_votes'') schema (str ''title_ratings'')]"

fun execute_all :: "env \<Rightarrow> sql_stmt list \<Rightarrow> proc \<Rightarrow> unit outcome" where
  "execute_all env [] p = Return () p"
| "execute_all env (stmt # stmts) p =
     (case cur_request env (Execute stmt) p of
        Raise e p' \<Rightarrow> Raise e p'
      | Return _ p' \<Rightarrow> execute_all env stmts p')"

definition run_ddl :: "env \<Rightarrow> pystr \<Rightarrow> proc \<Rightarrow> unit outcome" where
  "run_ddl env schema p =
     (case execute_all env (map (\<lambda>stmt. stmt schema) DDL_STATEMENTS) p of
        Raise e p' \<Rightarrow> Raise e p'
      | Return _ p' \<Rightarrow> Return () (commit p'))"

definition truncate_table :: "env \<Rightarrow> pystr \<Rightarrow> pystr \<Rightarrow> proc \<Rightarrow> unit outcome" where
  "truncate_table env schema tbl p =
     (case cur_request env (Execute (TruncateTable schema tbl)) p of
        Raise e p' \<Rightarrow> Raise e p'
      | Return _ p' \<Rightarrow> Return () (commit p'))"

subsection \<open>\<^verbatim>\<open>copy_tsv\<close>\<close>

definition copy_sql :: "pystr \<Rightarrow> pystr \<Rightarrow> pystr list \<Rightarrow> sql_stmt" where
  "copy_sql schema tbl ordered = CopyFromStdin schema tbl ordered TAB [92, 78]"

text \<open>
  The steps of \<^verbatim>\<open>copy_tsv\<close> in the order of the source: the column list (which may
  raise \<^verbatim>\<open>KeyError\<close>), the statement, the stream, the header line and its check, the
  transfer of the rest of the stream, the count, the commit and the report.
  \<open>table_cols_in_order\<close> is a parameter of the source that its body never reads.
\<close>

definition copy_tsv ::
  "env \<Rightarrow> pystr \<Rightarrow> pystr \<Rightarrow> pystr \<Rightarrow> pystr list \<Rightarrow> pystr list \<Rightarrow> proc \<Rightarrow> unit outcome" where
  "copy_tsv env schema tbl file_path table_cols_in_order tsv_header_cols_in_order p =
     (case ordered_table_cols tsv_header_cols_in_order of
        Inl e \<Rightarrow> Raise e p
      | Inr ordered \<Rightarrow>
          (case open_textmaybe_gz env file_path of
             Inl e \<Rightarrow> Raise e p
           | Inr f \<Rightarrow>
               (case readline f of
                  (header, rest) \<Rightarrow>
                    let expected = join [TAB] tsv_header_cols_in_order;
                        p1 = (if strip header \<noteq> expected
                              then print_event (HeaderMismatch file_path) p else p)
                    in
                      (case cur_request env (CopyExpert (copy_sql schema tbl ordered) rest) p1 of
                         Raise e p2 \<Rightarrow> Raise e p2
                       | Return _ p2 \<Rightarrow>
                           (case cur_request env (Execute (SelectCount schema tbl)) p2 of
                              Raise e p3 \<Rightarrow> Raise e p3
                            | Return res p3 \<Rightarrow>
                                (case res of
                                   None \<Rightarrow> Raise TypeError p3
                                 | Some total_rows \<Rightarrow>
                                     Return ()
                                       (print_event
                                          (Loaded total_rows schema tbl (basename file_path))
                                          (commit p3))))))))"

subsection \<open>\<^verbatim>\<open>main\<close>\<close>

text \<open>The arguments as \<^verbatim>\<open>argparse\<close> hands them over.\<close>

record args =
  a_dsn :: pystr
  a_schema :: pystr
  a_name :: pystr
  a_title :: pystr
  a_ratings :: pystr
  a_truncate :: bool

text \<open>
  What a run leaves: the exit code, what was printed, the requests sent to the server,
  and the committed database (\<open>None\<close> when no connection was made).
  \<^verbatim>\<open>conn.close()\<close> discards the open transaction.
\<close>

record run =
  exit_code :: int
  printed :: "event list"
  requests :: "request list"
  db_after :: "database option"

fun truncate_all :: "env \<Rightarrow> pystr \<Rightarrow> pystr list \<Rightarrow> proc \<Rightarrow> unit outcome" where
  "truncate_all env schema [] p = Return () p"
| "truncate_all env schema (t # ts) p =
     (case truncate_table env schema t p of
        Raise e p' \<Rightarrow> Raise e p'
      | Return _ p' \<Rightarrow> truncate_all env schema ts p')"

text \<open>The body of the \<^verbatim>\<open>try\<close> block of \<^verbatim>\<open>main\<close>.\<close>

definition main_body :: "env \<Rightarrow> args \<Rightarrow> proc \<Rightarrow> unit outcome" where
  "main_body env a p =
     (case run_ddl env (a_schema a) p of
        Raise e p1 \<Rightarrow> Raise e p1
      | Return _ p1 \<Rightarrow>
          (case (if a_truncate a
                 then truncate_all env (a_schema a)
                        [str ''name_basics'', str ''title_basics'', str ''title_ratings''] p1
                 else Return () p1) of
             Raise e p2 \<Rightarrow> Raise e p2
           | Return _ p2 \<Rightarrow>
               (case copy_tsv env (a_schema a) (str ''name_basics'') (a_name a)
                       [str ''nconst'', str ''primary_name'', str ''birth_year'',
                        str ''death_year'', str ''primary_profession'',
                        str ''known_for_titles'']
                       NAME_COLS p2 of
                  Raise e p3 \<Rightarrow> Raise e p3
                | Return _ p3 \<Rightarrow>
                    (case copy_tsv env (a_schema a) (str ''title_basics'') (a_title a)
                            [str ''tconst'', str ''title_type'', str ''primary_title'',
                             str ''original_title'', str ''is_adult'', str ''start_year'',
                             str ''end_year'', str ''runtime_minutes'', str ''genres'']
                            TITLE_COLS p3 of
                       Raise e p4 \<Rightarrow> Raise e p4
                     | Return _ p4 \<Rightarrow>
                         (case copy_tsv env (a_schema a) (str ''title_ratings'') (a_ratings a)
                                 [str ''tconst'', str ''average_rating'', str ''num_votes'']
                                 RATING_COLS p4 of
                            Raise e p5 \<Rightarrow> Raise e p5
                          | Return _ p5 \<Rightarrow> Return () (print_event Done p5))))))"

text \<open>
  \<^verbatim>\<open>main\<close>: a failure of \<^verbatim>\<open>psycopg2.connect\<close> is reported and \<^verbatim>\<open>sys.exit(1)\<close> ends
  the process before the \<^verbatim>\<open>try\<close> block. An exception of the block is not caught: after
  \<^verbatim>\<open>conn.close()\<close> the interpreter prints the traceback and exits with status 1.
\<close>

definition main :: "env \<Rightarrow> args \<Rightarrow> run" where
  "main env a =
     (case pg_connect env (a_dsn a) of
        Inl e \<Rightarrow>
          \<lparr>exit_code = 1, printed = [FailedToConnect e], requests = [], db_after = None\<rparr>
      | Inr db \<Rightarrow>
          (case main_body env a
                  \<lparr>p_conn = \<lparr>committed = db, working = db\<rparr>, p_out = [], p_sent = []\<rparr> of
             Return _ p \<Rightarrow>
               \<lparr>exit_code = 0, printed = p_out p, requests = p_sent p,
                db_after = Some (committed (p_conn p))\<rparr>
           | Raise e p \<Rightarrow>
               \<lparr>exit_code = 1, printed = p_out p @ [Traceback e], requests = p_sent p,
                db_after = Some (committed (p_conn p))\<rparr>))"

section \<open>Reading an outcome\<close>

text \<open>The state a call leaves, and the exception it raised, if any.\<close>

fun state_of :: "'a outcome \<Rightarrow> proc" where
  "state_of (Return _ p) = p"
| "state_of (Raise _ p) = p"

fun raised :: "'a outcome \<Rightarrow> py_error option" where
  "raised (Return _ _) = None"
| "raised (Raise e _) = Some e"

section \<open>A concrete environment for the examples\<close>

text \<open>
  The decoder of the examples accepts ASCII bytes only, on which it agrees with UTF-8.
  The example database holds the empty table \<open>imdb.title_ratings\<close>. The example server
  refuses nothing, and of \<^verbatim>\<open>COPY\<close> bodies it reads one: the two data lines of the
  specification's example, as the two rows a PostgreSQL server makes of them.
\<close>

definition ascii_decode :: "string \<Rightarrow> pystr option" where
  "ascii_decode b =
     (if list_all (\<lambda>c. (of_char c :: nat) < 128) b then Some (map of_char b) else None)"

definition example_db :: database where
  "example_db =
     Map.empty((str ''imdb'', str ''title_ratings'') \<mapsto>
       \<lparr>t_columns = [str ''tconst'', str ''average_rating'', str ''num_votes''], t_rows = []\<rparr>)"

definition example_rows :: pystr where
  "example_rows =
     join [TAB] [str ''tt0000001'', str ''5.6'', str ''1645''] @ [LF]
     @ join [TAB] [str ''tt0000002'', [92, 78], str ''0''] @ [LF]"

definition example_stored_rows :: "pystr option list list" where
  "example_stored_rows =
     [[Some (str ''tt0000001''), Some (str ''5.6''), Some (str ''1645'')],
      [Some (str ''tt0000002''), None, Some (str ''0'')]]"

definition example_env :: "(pystr \<times> pystr) list \<Rightarrow> env" where
  "example_env files =
     \<lparr>fs_bytes = (\<lambda>path. map_option (map char_of) (map_of files path)),
      gzip_decompress = (\<lambda>b. None),
      utf8_decode = ascii_decode,
      pg_connect = (\<lambda>dsn. Inr example_db),
      pg_refuses = (\<lambda>req db. False),
      pg_copy_rows = (\<lambda>stmt body tb. if body = example_rows then Some example_stored_rows
                                      else None)\<rparr>"

definition example_proc :: proc where
  "example_proc =
     \<lparr>p_conn = \<lparr>committed = example_db, working = example_db\<rparr>, p_out = [], p_sent = []\<rparr>"

text \<open>
  The rating file of the specification's example: the header and the two data lines.
  Two variants: one with other header names, one whose header line has a tab after the
  last name.
\<close>

definition example_ratings :: pystr where
  "example_ratings = join [TAB] RATING_COLS @ [LF] @ example_rows"

definition renamed_ratings :: pystr where
  "renamed_ratings = join [TAB] [str ''id'', str ''rating'', str ''votes''] @ [LF] @ example_rows"

definition trailing_tab_ratings :: pystr where
  "trailing_tab_ratings = join [TAB] RATING_COLS @ [TAB, LF] @ example_rows"

definition ratings_path :: pystr where
  "ratings_path = str ''title.ratings.tsv''"


text \<open>Loading a rating file \<open>text\<close> found at \<open>ratings_path\<close> into \<open>imdb.title_ratings\<close>.\<close>

definition load_example :: "pystr \<Rightarrow> proc \<Rightarrow> unit outcome" where
  "load_example text p =
     copy_tsv (example_env [(ratings_path, text)]) (str ''imdb'') (str ''title_ratings'')
       ratings_path [] RATING_COLS p"

text \<open>A state whose table already holds one row.\<close>

definition one_row_db :: database where
  "one_row_db =
     Map.empty((str ''imdb'', str ''title_ratings'') \<mapsto>
       \<lparr>t_columns = [str ''tconst'', str ''average_rating'', str ''num_votes''],
        t_rows = [[Some (str ''tt0000009''), Some (str ''7.0''), Some (str ''12'')]]\<rparr>)"

definition one_row_proc :: proc where
  "one_row_proc =
     \<lparr>p_conn = \<lparr>committed = one_row_db, working = one_row_db\<rparr>, p_out = [], p_sent = []\<rparr>"


text \<open>Arguments of a run, and an environment whose server cannot be reached.\<close>

definition example_args :: args where
  "example_args =
     \<lparr>a_dsn = str ''postgresql://localhost/imdb'', a_schema = str ''imdb'',
      a_name = str ''name.basics.tsv'', a_title = str ''title.basics.tsv'',
      a_ratings = str ''title.ratings.tsv'', a_truncate = True\<rparr>"

definition unreachable_env :: env where
  "unreachable_env = (example_env [])\<lparr>pg_connect := (\<lambda>dsn. Inl OperationalError)\<rparr>"

section \<open>The column list\<close>

lemma mapping_keys: "map fst mapping_items = NAME_COLS @ TITLE_COLS @ tl RATING_COLS"
  by (simp add: mapping_items_def NAME_COLS_def TITLE_COLS_def RATING_COLS_def)

lemma dom_mapping:
  "dom mapping = set NAME_COLS \<union> set TITLE_COLS \<union> set RATING_COLS"
proof -
  have "dom mapping = set (map fst mapping_items)"
    unfolding mapping_def by (simp only: dom_map_of_conv_image_fst set_map)
  also have "\<dots> = set NAME_COLS \<union> set TITLE_COLS \<union> set (tl RATING_COLS)"
    unfolding mapping_keys by (simp only: set_append Un_assoc)
  also have "\<dots> = set NAME_COLS \<union> set TITLE_COLS \<union> set RATING_COLS"
    by (auto simp add: RATING_COLS_def TITLE_COLS_def)
  finally show ?thesis .
qed

lemma ordered_table_cols_known:
  "set hs \<subseteq> dom mapping \<Longrightarrow> ordered_table_cols hs = Inr (map (\<lambda>h. the (mapping h)) hs)"
  by (induction hs) auto

lemma ordered_table_cols_unknown:
  "\<not> set hs \<subseteq> dom mapping \<Longrightarrow>
     \<exists>c. c \<in> set hs \<and> mapping c = None \<and> ordered_table_cols hs = Inl (KeyError c)"
proof (induction hs)
  case Nil
  then show ?case by simp
next
  case (Cons h hs)
  show ?case
  proof (cases "mapping h")
    case None
    then show ?thesis by auto
  next
    case (Some d)
    with Cons.prems have "\<not> set hs \<subseteq> dom mapping" by auto
    from Cons.IH [OF this] Some show ?thesis by auto
  qed
qed

text \<open>
  Claim C2. The column list does not depend on the order of the header: for a list of
  header names that are keys of the mapping, and any list with the same names in another
  order, the comprehension returns a list of the same length whose i-th element is the
  destination column of the i-th name, and it pairs every name with the same column in
  both orders.
\<close>

theorem column_mapper_order_independent:
  assumes known: "set hs \<subseteq> dom mapping" and perm: "mset hs' = mset hs"
  shows "\<exists>cs cs'. ordered_table_cols hs = Inr cs \<and> ordered_table_cols hs' = Inr cs'
           \<and> length cs' = length hs'
           \<and> (\<forall>i<length hs'. mapping (hs' ! i) = Some (cs' ! i))
           \<and> mset (zip hs' cs') = mset (zip hs cs)"
proof -
  let ?f = "\<lambda>h. the (mapping h)"
  from perm have "set hs' = set hs" by (rule mset_eq_setD)
  with known have known': "set hs' \<subseteq> dom mapping" by simp
  have a: "ordered_table_cols hs = Inr (map ?f hs)"
    using known by (rule ordered_table_cols_known)
  have b: "ordered_table_cols hs' = Inr (map ?f hs')"
    using known' by (rule ordered_table_cols_known)
  have c: "\<forall>i<length hs'. mapping (hs' ! i) = Some (map ?f hs' ! i)"
  proof (intro allI impI)
    fix i assume "i < length hs'"
    then have "hs' ! i \<in> dom mapping" using known' by (auto simp: subset_iff)
    then show "mapping (hs' ! i) = Some (map ?f hs' ! i)"
      using \<open>i < length hs'\<close> by auto
  qed
  have z: "\<And>xs. zip xs (map ?f xs) = map (\<lambda>h. (h, ?f h)) xs"
    by (simp add: zip_map2 zip_same_conv_map)
  have d: "mset (zip hs' (map ?f hs')) = mset (zip hs (map ?f hs))"
    unfolding z mset_map using perm by simp
  from a b c d show ?thesis by simp
qed

lemma mapping_rating_keys:
  "mapping (str ''tconst'') = Some (str ''tconst'')"
  "mapping (str ''averageRating'') = Some (str ''average_rating'')"
  "mapping (str ''numVotes'') = Some (str ''num_votes'')"
  by (simp_all add: mapping_def mapping_items_def str_def)

text \<open>The rating header in another order.\<close>

theorem column_mapper_order_independent_witness:
  "set RATING_COLS \<subseteq> dom mapping
   \<and> mset [str ''numVotes'', str ''tconst'', str ''averageRating''] = mset RATING_COLS
   \<and> ordered_table_cols [str ''numVotes'', str ''tconst'', str ''averageRating'']
       = Inr [str ''num_votes'', str ''tconst'', str ''average_rating'']"
proof -
  let ?hs' = "[str ''numVotes'', str ''tconst'', str ''averageRating'']"
  have k: "set RATING_COLS \<subseteq> dom mapping" by (simp add: dom_mapping)
  have m: "mset ?hs' = mset RATING_COLS"
    by (simp add: RATING_COLS_def add_mset_commute)
  from column_mapper_order_independent [OF k m]
  obtain cs' where o: "ordered_table_cols ?hs' = Inr cs'"
    and l: "length cs' = length ?hs'"
    and v: "\<forall>i<length ?hs'. mapping (?hs' ! i) = Some (cs' ! i)"
    by blast
  from l obtain a b c where abc: "cs' = [a, b, c]"
    by (auto simp add: length_Suc_conv)
  from v [rule_format, of 0] have "a = str ''num_votes''"
    by (simp add: abc mapping_rating_keys)
  moreover from v [rule_format, of 1] have "b = str ''tconst''"
    by (simp add: abc mapping_rating_keys)
  moreover from v [rule_format, of 2] have "c = str ''average_rating''"
    by (simp add: abc mapping_rating_keys)
  ultimately show ?thesis using o k m abc by simp
qed

section \<open>The reader\<close>

lemma endswith_iff: "endswith s suf \<longleftrightarrow> (\<exists>stem. s = stem @ suf)"
proof
  assume "endswith s suf"
  then have "s = take (length s - length suf) s @ suf"
    by (metis append_take_drop_id endswith_def)
  then show "\<exists>stem. s = stem @ suf" ..
next
  assume "\<exists>stem. s = stem @ suf"
  then show "endswith s suf" by (auto simp add: endswith_def)
qed

lemma endswith_same_length:
  "length t = length suf \<Longrightarrow> endswith (stem @ t) suf \<longleftrightarrow> t = suf"
  by (simp add: endswith_def)

lemma gz_literals:
  "str ''.gz'' = [46, 103, 122]" "str ''.GZ'' = [46, 71, 90]" "str ''.Gz'' = [46, 71, 122]"
  "str ''.gZ'' = [46, 103, 90]" "str ''.tgz'' = [46, 116, 103, 122]"
  by (simp_all add: str_def)


lemma not_gz_suffix:
  "\<not> endswith (stem @ str ''.GZ'') (str ''.gz'')"
  "\<not> endswith (stem @ str ''.Gz'') (str ''.gz'')"
  "\<not> endswith (stem @ str ''.gZ'') (str ''.gz'')"
  "\<not> endswith (stem @ str ''.tgz'') (str ''.gz'')"
proof -
  show "\<not> endswith (stem @ str ''.GZ'') (str ''.gz'')"
    by (simp add: endswith_same_length gz_literals)
  show "\<not> endswith (stem @ str ''.Gz'') (str ''.gz'')"
    by (simp add: endswith_same_length gz_literals)
  show "\<not> endswith (stem @ str ''.gZ'') (str ''.gz'')"
    by (simp add: endswith_same_length gz_literals)
  have "stem @ [46, 116, 103, 122] = (stem @ [46]) @ [116, 103, 122::nat]" by simp
  then show "\<not> endswith (stem @ str ''.tgz'') (str ''.gz'')"
    unfolding gz_literals by (simp only: endswith_same_length length_Cons list.size) simp
qed

text \<open>
  Claim C9. The test for compression is the exact suffix \<^verbatim>\<open>.gz\<close>. A path that is some
  stem followed by the three characters \<^verbatim>\<open>.gz\<close> in lower case is read through gzip: the
  stream is the decoded text of the decompressed bytes of the file. Every other path,
  among them the paths that end in \<^verbatim>\<open>.GZ\<close>, \<^verbatim>\<open>.Gz\<close>, \<^verbatim>\<open>.gZ\<close> or \<^verbatim>\<open>.tgz\<close>, is read as
  plain text: the stream is the decoded text of the bytes of the file, and the
  decompression is not applied.
\<close>

theorem gz_suffix_exact:
  "open_textmaybe_gz env path =
     (if (\<exists>stem. path = stem @ str ''.gz'') then
        (case fs_bytes env path of
           None \<Rightarrow> Inl (FileNotFoundError path)
         | Some b \<Rightarrow>
             (case gzip_decompress env b of
                None \<Rightarrow> Inl BadGzipFile
              | Some raw \<Rightarrow>
                  (case utf8_decode env raw of
                     None \<Rightarrow> Inl UnicodeDecodeError
                   | Some t \<Rightarrow> Inr t)))
      else
        (case fs_bytes env path of
           None \<Rightarrow> Inl (FileNotFoundError path)
         | Some b \<Rightarrow>
             (case utf8_decode env b of
                None \<Rightarrow> Inl UnicodeDecodeError
              | Some t \<Rightarrow> Inr t)))
   \<and> open_textmaybe_gz env (stem @ str ''.GZ'') =
       (case fs_bytes env (stem @ str ''.GZ'') of
          None \<Rightarrow> Inl (FileNotFoundError (stem @ str ''.GZ''))
        | Some b \<Rightarrow>
            (case utf8_decode env b of None \<Rightarrow> Inl UnicodeDecodeError | Some t \<Rightarrow> Inr t))
   \<and> open_textmaybe_gz env (stem @ str ''.Gz'') =
       (case fs_bytes env (stem @ str ''.Gz'') of
          None \<Rightarrow> Inl (FileNotFoundError (stem @ str ''.Gz''))
        | Some b \<Rightarrow>
            (case utf8_decode env b of None \<Rightarrow> Inl UnicodeDecodeError | Some t \<Rightarrow> Inr t))
   \<and> open_textmaybe_gz env (stem @ str ''.gZ'') =
       (case fs_bytes env (stem @ str ''.gZ'') of
          None \<Rightarrow> Inl (FileNotFoundError (stem @ str ''.gZ''))
        | Some b \<Rightarrow>
            (case utf8_decode env b of None \<Rightarrow> Inl UnicodeDecodeError | Some t \<Rightarrow> Inr t))
   \<and> open_textmaybe_gz env (stem @ str ''.tgz'') =
       (case fs_bytes env (stem @ str ''.tgz'') of
          None \<Rightarrow> Inl (FileNotFoundError (stem @ str ''.tgz''))
        | Some b \<Rightarrow>
            (case utf8_decode env b of None \<Rightarrow> Inl UnicodeDecodeError | Some t \<Rightarrow> Inr t))"
proof -
  have "open_textmaybe_gz env path =
     (if (\<exists>stem. path = stem @ str ''.gz'') then gzip_open_text env path else open_text env path)"
    unfolding open_textmaybe_gz_def endswith_iff ..
  moreover have "open_textmaybe_gz env (stem @ str ''.GZ'') = open_text env (stem @ str ''.GZ'')"
    "open_textmaybe_gz env (stem @ str ''.Gz'') = open_text env (stem @ str ''.Gz'')"
    "open_textmaybe_gz env (stem @ str ''.gZ'') = open_text env (stem @ str ''.gZ'')"
    "open_textmaybe_gz env (stem @ str ''.tgz'') = open_text env (stem @ str ''.tgz'')"
    by (simp_all only: open_textmaybe_gz_def not_gz_suffix if_False)
  ultimately show ?thesis
    by (simp only: gzip_open_text_def open_text_def simp_thms)
qed

section \<open>The bulk loader\<close>

text \<open>
  Claim C8. The argument \<open>table_cols_in_order\<close> has no effect: with every other input
  equal, two values of it give the same outcome of \<open>copy_tsv\<close>, that is the same
  requests sent to the server (the \<^verbatim>\<open>COPY\<close> statement with them), the same connection
  state, the same output and the same exception, if any.
\<close>

theorem table_cols_in_order_unused:
  "copy_tsv env schema tbl file_path cols1 hdr p = copy_tsv env schema tbl file_path cols2 hdr p"
  unfolding copy_tsv_def ..

section \<open>The orchestrator\<close>

text \<open>
  Claim C7. When the connection fails, the run prints the failure, exits with code 1 and
  sends no request to the server: no DDL, no truncation, no load.
\<close>

theorem connect_failure_exits_1:
  assumes "pg_connect env (a_dsn a) = Inl e"
  shows "main env a =
           \<lparr>exit_code = 1, printed = [FailedToConnect e], requests = [], db_after = None\<rparr>"
  using assms by (simp add: main_def)


theorem connect_failure_exits_1_witness:
  "pg_connect unreachable_env (a_dsn example_args) = Inl OperationalError
   \<and> main unreachable_env example_args
     = \<lparr>exit_code = 1, printed = [FailedToConnect OperationalError], requests = [],
          db_after = None\<rparr>"
proof -
  have c: "pg_connect unreachable_env (a_dsn example_args) = Inl OperationalError"
    by (simp add: unreachable_env_def)
  from connect_failure_exits_1 [OF c] c show ?thesis by (simp only: simp_thms)
qed

section \<open>Unknown header names\<close>

lemma header_lengths:
  "length NAME_COLS = 6" "length TITLE_COLS = 9" "length RATING_COLS = 3"
  by (simp_all add: NAME_COLS_def TITLE_COLS_def RATING_COLS_def)

lemma header_distinct: "distinct NAME_COLS" "distinct TITLE_COLS" "distinct RATING_COLS"
  by (simp_all add: NAME_COLS_def TITLE_COLS_def RATING_COLS_def str_def)

lemma copy_tsv_key_error:
  "ordered_table_cols hdr = Inl e \<Longrightarrow> copy_tsv env schema tbl path tc hdr p = Raise e p"
  by (simp add: copy_tsv_def)

text \<open>
  Claim C4. The mapping is total on the three header lists: its keys are exactly the 6
  person fields, the 9 title fields and the 3 rating fields. A header list with a name
  outside that set makes the comprehension raise \<^verbatim>\<open>KeyError\<close> for such a name, and
  \<open>copy_tsv\<close> raises it before it opens the file or sends a request.
\<close>

theorem unknown_field_raises_key_error:
  "dom mapping = set NAME_COLS \<union> set TITLE_COLS \<union> set RATING_COLS
   \<and> length NAME_COLS = 6 \<and> length TITLE_COLS = 9 \<and> length RATING_COLS = 3
   \<and> distinct NAME_COLS \<and> distinct TITLE_COLS \<and> distinct RATING_COLS
   \<and> (\<not> set hdr \<subseteq> dom mapping \<longrightarrow>
        (\<exists>c. c \<in> set hdr \<and> c \<notin> dom mapping
           \<and> ordered_table_cols hdr = Inl (KeyError c)
           \<and> copy_tsv env schema tbl path tc hdr p = Raise (KeyError c) p))"
proof -
  have "\<exists>c. c \<in> set hdr \<and> c \<notin> dom mapping
           \<and> ordered_table_cols hdr = Inl (KeyError c)
           \<and> copy_tsv env schema tbl path tc hdr p = Raise (KeyError c) p"
    if "\<not> set hdr \<subseteq> dom mapping"
  proof -
    from ordered_table_cols_unknown [OF that] obtain c
      where c: "c \<in> set hdr" "mapping c = None" "ordered_table_cols hdr = Inl (KeyError c)"
      by blast
    from c(2) have "c \<notin> dom mapping" by (simp add: domIff)
    with c copy_tsv_key_error [OF c(3)] show ?thesis by blast
  qed
  then show ?thesis
    using dom_mapping header_lengths header_distinct by blast
qed

lemma mapping_rating_unknown: "mapping (str ''rating'') = None"
  by (simp add: mapping_def mapping_items_def str_def)

theorem unknown_field_raises_key_error_witness:
  "\<not> set [str ''tconst'', str ''rating''] \<subseteq> dom mapping
   \<and> ordered_table_cols [str ''tconst'', str ''rating''] = Inl (KeyError (str ''rating''))
   \<and> copy_tsv (example_env []) (str ''imdb'') (str ''title_ratings'') (str ''r.tsv'') []
        [str ''tconst'', str ''rating''] example_proc
       = Raise (KeyError (str ''rating'')) example_proc"
proof -
  let ?hdr = "[str ''tconst'', str ''rating'']"
  have n: "\<not> set ?hdr \<subseteq> dom mapping"
    using mapping_rating_unknown by (auto simp add: domIff)
  from unknown_field_raises_key_error
    [of ?hdr "example_env []" "str ''imdb''" "str ''title_ratings''" "str ''r.tsv''" "[]" example_proc] n
  obtain c where c: "c \<in> set ?hdr" "c \<notin> dom mapping"
      "ordered_table_cols ?hdr = Inl (KeyError c)"
      "copy_tsv (example_env []) (str ''imdb'') (str ''title_ratings'') (str ''r.tsv'') []
         ?hdr example_proc = Raise (KeyError c) example_proc"
    by blast
  from c(1,2) mapping_rating_keys(1) have "c = str ''rating''" by (auto simp add: domIff)
  with c n show ?thesis by simp
qed

section \<open>Facts about the steps of the bulk loader\<close>

lemma readline_append: "readline f = (h, r) \<Longrightarrow> f = h @ r"
  by (induction f arbitrary: h r rule: readline.induct)
     (auto split: if_splits list.splits prod.splits)

lemma readline_shape:
  "readline f = (h, r) \<Longrightarrow>
     \<exists>l e. h = l @ e \<and> LF \<notin> set l \<and> CR \<notin> set l
       \<and> (e = [LF] \<or> e = [CR, LF] \<or> (e = [CR] \<and> (r = [] \<or> hd r \<noteq> LF))
            \<or> (e = [] \<and> r = []))"
proof (induction f arbitrary: h r rule: readline.induct)
  case 1
  then show ?case by simp
next
  case (2 c cs)
  consider (lf) "c = LF" | (cr) "c = CR" | (other) "c \<noteq> LF" "c \<noteq> CR" by blast
  then show ?case
  proof cases
    case lf
    with "2.prems" have "h = [] @ [LF]" by simp
    then show ?thesis by (metis empty_iff empty_set)
  next
    case cr
    show ?thesis
    proof (cases cs)
      case Nil
      with cr "2.prems" have "h = [] @ [CR]" "r = []" by simp_all
      then show ?thesis by (metis empty_iff empty_set)
    next
      case (Cons d ds)
      show ?thesis
      proof (cases "d = LF")
        case True
        with cr Cons "2.prems" have "h = [] @ [CR, LF]" by simp
        then show ?thesis by (metis empty_iff empty_set)
      next
        case False
        with cr Cons "2.prems" have "h = [] @ [CR]" "hd r \<noteq> LF" by auto
        then show ?thesis by (metis empty_iff empty_set)
      qed
    qed
  next
    case other
    obtain h' r' where hr: "readline cs = (h', r')" by (cases "readline cs")
    with other "2.prems" have eq: "h = c # h'" "r = r'" by auto
    from "2.IH" [OF other hr] obtain l e where
      le: "h' = l @ e" "LF \<notin> set l" "CR \<notin> set l"
        "e = [LF] \<or> e = [CR, LF] \<or> (e = [CR] \<and> (r' = [] \<or> hd r' \<noteq> LF)) \<or> (e = [] \<and> r' = [])"
      by blast
    have "h = (c # l) @ e" "LF \<notin> set (c # l)" "CR \<notin> set (c # l)"
      using eq le other by auto
    with le(4) eq(2) show ?thesis by blast
  qed
qed

lemma cur_request_sent: "p_sent (state_of (cur_request env req p)) = p_sent p @ [req]"
  by (simp add: cur_request_def Let_def split: option.split prod.split)

lemma cur_request_out: "p_out (state_of (cur_request env req p)) = p_out p"
  by (simp add: cur_request_def Let_def split: option.split prod.split)

lemma cur_request_Return:
  "cur_request env req p = Return res p' \<Longrightarrow>
     \<exists>db. pg_request env req (working (p_conn p)) = Some (db, res)
       \<and> p' = p\<lparr>p_sent := p_sent p @ [req], p_conn := (p_conn p)\<lparr>working := db\<rparr>\<rparr>"
  by (auto simp add: cur_request_def Let_def split: option.splits prod.splits)

lemma cur_request_Raise:
  "cur_request env req p = Raise e p' \<Longrightarrow> p' = p\<lparr>p_sent := p_sent p @ [req]\<rparr>"
  by (auto simp add: cur_request_def Let_def split: option.splits prod.splits)

lemma pg_copy_Some:
  "pg_request env (CopyExpert (CopyFromStdin s t cols d n) body) db = Some (db', res) \<Longrightarrow>
     \<exists>tb rows. db (s, t) = Some tb
       \<and> \<not> pg_refuses env (CopyExpert (CopyFromStdin s t cols d n) body) db
       \<and> copy_body_rows env (CopyFromStdin s t cols d n) body tb = Some rows
       \<and> db' = db((s, t) \<mapsto> tb\<lparr>t_rows := t_rows tb @ rows\<rparr>)
       \<and> res = None"
  by (auto simp add: pg_request_def split: if_splits option.splits)

lemma pg_count_Some:
  "pg_request env (Execute (SelectCount s t)) db = Some (db', res) \<Longrightarrow>
     \<exists>tb. db (s, t) = Some tb \<and> db' = db \<and> res = Some (length (t_rows tb))"
  by (auto simp add: pg_request_def split: if_splits option.splits)

text \<open>\<open>copy_tsv\<close> once the column list is known and the stream is open.\<close>

lemma copy_tsv_opened:
  assumes "ordered_table_cols hdr = Inr cols" and "open_textmaybe_gz env path = Inr f"
  shows "copy_tsv env s t path tc hdr p =
     (case cur_request env (CopyExpert (copy_sql s t cols) (snd (readline f)))
             (if strip (fst (readline f)) \<noteq> join [TAB] hdr
              then print_event (HeaderMismatch path) p else p) of
        Raise e p2 \<Rightarrow> Raise e p2
      | Return _ p2 \<Rightarrow>
          (case cur_request env (Execute (SelectCount s t)) p2 of
             Raise e p3 \<Rightarrow> Raise e p3
           | Return res p3 \<Rightarrow>
               (case res of
                  None \<Rightarrow> Raise TypeError p3
                | Some n \<Rightarrow>
                    Return () (print_event (Loaded n s t (basename path)) (commit p3)))))"
  using assms by (simp add: copy_tsv_def Let_def split: prod.split)


lemma copy_tsv_trace:
  assumes cols: "ordered_table_cols hdr = Inr cols" and f: "open_textmaybe_gz env path = Inr f"
  shows "\<exists>more_out more_sent.
      p_out (state_of (copy_tsv env s t path tc hdr p)) =
        p_out p @ (if strip (fst (readline f)) = join [TAB] hdr then [] else [HeaderMismatch path])
          @ more_out
    \<and> (more_out = [] \<or> (\<exists>n. more_out = [Loaded n s t (basename path)]))
    \<and> p_sent (state_of (copy_tsv env s t path tc hdr p)) =
        p_sent p @ CopyExpert (copy_sql s t cols) (snd (readline f)) # more_sent
    \<and> (more_sent = [] \<or> more_sent = [Execute (SelectCount s t)])"
proof -
  define p1 where "p1 = (if strip (fst (readline f)) \<noteq> join [TAB] hdr
              then print_event (HeaderMismatch path) p else p)"
  define req where "req = CopyExpert (copy_sql s t cols) (snd (readline f))"
  have p1_out: "p_out p1 =
      p_out p @ (if strip (fst (readline f)) = join [TAB] hdr then [] else [HeaderMismatch path])"
    by (simp add: p1_def print_event_def)
  have p1_sent: "p_sent p1 = p_sent p" by (simp add: p1_def print_event_def)
  note unf = copy_tsv_opened [OF cols f, of s t tc p, folded p1_def req_def]
  show ?thesis
  proof (cases "cur_request env req p1")
    case (Raise e p2)
    have "p_out p2 = p_out p1" "p_sent p2 = p_sent p1 @ [req]"
      using cur_request_out [of env req p1] cur_request_sent [of env req p1] Raise by simp_all
    moreover have "copy_tsv env s t path tc hdr p = Raise e p2"
      unfolding unf Raise by simp
    ultimately show ?thesis
      using p1_out p1_sent by (simp add: req_def)
  next
    case (Return r p2)
    have p2: "p_out p2 = p_out p1" "p_sent p2 = p_sent p1 @ [req]"
      using cur_request_out [of env req p1] cur_request_sent [of env req p1] Return by simp_all
    have unf2: "copy_tsv env s t path tc hdr p =
      (case cur_request env (Execute (SelectCount s t)) p2 of
             Raise e p3 \<Rightarrow> Raise e p3
           | Return res p3 \<Rightarrow>
               (case res of
                  None \<Rightarrow> Raise TypeError p3
                | Some n \<Rightarrow>
                    Return () (print_event (Loaded n s t (basename path)) (commit p3))))"
      unfolding unf Return by simp
    show ?thesis
    proof (cases "cur_request env (Execute (SelectCount s t)) p2")
      case (Raise e p3)
      have "p_out p3 = p_out p2" "p_sent p3 = p_sent p2 @ [Execute (SelectCount s t)]"
        using cur_request_out [of env "Execute (SelectCount s t)" p2]
          cur_request_sent [of env "Execute (SelectCount s t)" p2] Raise by simp_all
      moreover have "copy_tsv env s t path tc hdr p = Raise e p3"
        unfolding unf2 Raise by simp
      ultimately show ?thesis
        using p1_out p1_sent p2 by (simp add: req_def)
    next
      case Return2: (Return res p3)
      have p3: "p_out p3 = p_out p2" "p_sent p3 = p_sent p2 @ [Execute (SelectCount s t)]"
        using cur_request_out [of env "Execute (SelectCount s t)" p2]
          cur_request_sent [of env "Execute (SelectCount s t)" p2] Return2 by simp_all
      show ?thesis
      proof (cases res)
        case None
        have "copy_tsv env s t path tc hdr p = Raise TypeError p3"
          unfolding unf2 Return2 None by simp
        then show ?thesis
          using p1_out p1_sent p2 p3 by (simp add: req_def)
      next
        case (Some n)
        have "copy_tsv env s t path tc hdr p =
            Return () (print_event (Loaded n s t (basename path)) (commit p3))"
          unfolding unf2 Return2 Some by simp
        then show ?thesis
          using p1_out p1_sent p2 p3 by (simp add: req_def print_event_def commit_def)
      qed
    qed
  qed
qed

text \<open>What a call of \<open>copy_tsv\<close> that returns has done.\<close>

lemma copy_tsv_Return:
  assumes ret: "copy_tsv env s t path tc hdr p = Return () p'"
  shows "\<exists>cols f tb rows.
      ordered_table_cols hdr = Inr cols \<and> open_textmaybe_gz env path = Inr f
    \<and> working (p_conn p) (s, t) = Some tb
    \<and> copy_body_rows env (copy_sql s t cols) (snd (readline f)) tb = Some rows
    \<and> committed (p_conn p') =
        (working (p_conn p))((s, t) \<mapsto> tb\<lparr>t_rows := t_rows tb @ rows\<rparr>)
    \<and> working (p_conn p') = committed (p_conn p')
    \<and> pg_request env (Execute (SelectCount s t)) (committed (p_conn p')) =
        Some (committed (p_conn p'), Some (length (t_rows tb) + length rows))
    \<and> p_out p' =
        p_out p @ (if strip (fst (readline f)) = join [TAB] hdr then [] else [HeaderMismatch path])
          @ [Loaded (length (t_rows tb) + length rows) s t (basename path)]
    \<and> p_sent p' =
        p_sent p @ [CopyExpert (copy_sql s t cols) (snd (readline f)), Execute (SelectCount s t)]"
proof -
  from ret obtain cols where cols: "ordered_table_cols hdr = Inr cols"
    by (cases "ordered_table_cols hdr") (simp_all add: copy_tsv_def)
  from ret cols obtain f where f: "open_textmaybe_gz env path = Inr f"
    by (cases "open_textmaybe_gz env path") (simp_all add: copy_tsv_def)
  define p1 where "p1 = (if strip (fst (readline f)) \<noteq> join [TAB] hdr
              then print_event (HeaderMismatch path) p else p)"
  define req where "req = CopyExpert (copy_sql s t cols) (snd (readline f))"
  have p1: "p_out p1 =
      p_out p @ (if strip (fst (readline f)) = join [TAB] hdr then [] else [HeaderMismatch path])"
    "p_sent p1 = p_sent p" "p_conn p1 = p_conn p"
    by (simp_all add: p1_def print_event_def)
  note unf = copy_tsv_opened [OF cols f, of s t tc p, folded p1_def req_def]
  from ret obtain r p2 where r2: "cur_request env req p1 = Return r p2"
    unfolding unf by (cases "cur_request env req p1") simp_all
  from ret r2 obtain res p3 where r3: "cur_request env (Execute (SelectCount s t)) p2 = Return res p3"
    unfolding unf by (cases "cur_request env (Execute (SelectCount s t)) p2") simp_all
  from ret r2 r3 obtain n where n: "res = Some n"
    and p': "p' = print_event (Loaded n s t (basename path)) (commit p3)"
    unfolding unf by (cases res) simp_all
  from cur_request_Return [OF r2] obtain db1 where
    db1: "pg_request env req (working (p_conn p1)) = Some (db1, r)"
    and p2: "p2 = p1\<lparr>p_sent := p_sent p1 @ [req], p_conn := (p_conn p1)\<lparr>working := db1\<rparr>\<rparr>"
    by blast
  from pg_copy_Some [OF db1 [unfolded req_def copy_sql_def]] obtain tb rows where
    tb: "working (p_conn p1) (s, t) = Some tb"
      "copy_body_rows env (copy_sql s t cols) (snd (readline f)) tb = Some rows"
      "db1 = (working (p_conn p1))((s, t) \<mapsto> tb\<lparr>t_rows := t_rows tb @ rows\<rparr>)"
    unfolding copy_sql_def by blast
  from cur_request_Return [OF r3] obtain db2 where
    db2: "pg_request env (Execute (SelectCount s t)) (working (p_conn p2)) = Some (db2, res)"
    and p3: "p3 = p2\<lparr>p_sent := p_sent p2 @ [Execute (SelectCount s t)],
                    p_conn := (p_conn p2)\<lparr>working := db2\<rparr>\<rparr>"
    by blast
  have w2: "working (p_conn p2) = db1" by (simp add: p2)
  from pg_count_Some [OF db2] obtain tb2 where
    tb2: "working (p_conn p2) (s, t) = Some tb2" "db2 = working (p_conn p2)"
      "res = Some (length (t_rows tb2))"
    by blast
  from tb2(1) have "tb2 = tb\<lparr>t_rows := t_rows tb @ rows\<rparr>"
    unfolding w2 tb(3) by simp
  with tb2(3) n have nval: "n = length (t_rows tb) + length rows" by simp
  have c: "committed (p_conn p') = db1" "working (p_conn p') = db1"
    by (simp_all add: p' print_event_def commit_def p3 tb2(2) w2)
  have reply: "pg_request env (Execute (SelectCount s t)) (committed (p_conn p')) =
        Some (committed (p_conn p'), Some (length (t_rows tb) + length rows))"
    using db2 n nval by (simp add: c w2 tb2(2))
  have "p_out p' = p_out p1 @ [Loaded n s t (basename path)]"
    by (simp add: p' print_event_def commit_def p3 p2)
  moreover have "p_sent p' = p_sent p1 @ [req, Execute (SelectCount s t)]"
    by (simp add: p' print_event_def commit_def p3 p2)
  ultimately show ?thesis
    using cols f tb p1 nval c reply by (simp add: req_def)
qed

section \<open>The load and its report\<close>

text \<open>
  Claim C5. A load that returns has sent the transfer request and then the count query
  for the destination table, and the number it reports last is the server's answer to
  that query in the state the transfer left: the number of rows the table then holds,
  which are the rows it held before the load followed by the rows the server read from
  the body. It is the total of the table, not the number of rows this load added.
\<close>

theorem reported_count_is_table_total:
  assumes ret: "copy_tsv env s t path tc hdr p = Return () p'"
  shows "\<exists>tb tb' cols body added.
      working (p_conn p) (s, t) = Some tb \<and> committed (p_conn p') (s, t) = Some tb'
    \<and> p_sent p' = p_sent p @ [CopyExpert (copy_sql s t cols) body, Execute (SelectCount s t)]
    \<and> copy_body_rows env (copy_sql s t cols) body tb = Some added
    \<and> t_rows tb' = t_rows tb @ added
    \<and> pg_request env (Execute (SelectCount s t)) (committed (p_conn p')) =
        Some (committed (p_conn p'), Some (length (t_rows tb')))
    \<and> last (p_out p') = Loaded (length (t_rows tb')) s t (basename path)"
proof -
  from copy_tsv_Return [OF ret] obtain cols f tb rows where
    tb: "working (p_conn p) (s, t) = Some tb"
    and rd: "copy_body_rows env (copy_sql s t cols) (snd (readline f)) tb = Some rows"
    and db: "committed (p_conn p') =
        (working (p_conn p))((s, t) \<mapsto> tb\<lparr>t_rows := t_rows tb @ rows\<rparr>)"
    and reply: "pg_request env (Execute (SelectCount s t)) (committed (p_conn p')) =
        Some (committed (p_conn p'), Some (length (t_rows tb) + length rows))"
    and out: "p_out p' =
        p_out p @ (if strip (fst (readline f)) = join [TAB] hdr then [] else [HeaderMismatch path])
          @ [Loaded (length (t_rows tb) + length rows) s t (basename path)]"
    and sent: "p_sent p' =
        p_sent p @ [CopyExpert (copy_sql s t cols) (snd (readline f)), Execute (SelectCount s t)]"
    by blast
  let ?tb' = "tb\<lparr>t_rows := t_rows tb @ rows\<rparr>"
  have "committed (p_conn p') (s, t) = Some ?tb'" by (simp add: db)
  moreover have "t_rows ?tb' = t_rows tb @ rows" by simp
  moreover have "pg_request env (Execute (SelectCount s t)) (committed (p_conn p')) =
        Some (committed (p_conn p'), Some (length (t_rows ?tb')))"
    using reply by simp
  moreover have "last (p_out p') = Loaded (length (t_rows ?tb')) s t (basename path)"
    by (simp add: out)
  ultimately show ?thesis using tb sent rd by blast
qed

text \<open>
  Claim C10. When the column list is known and the stream is open, \<^verbatim>\<open>readline\<close>
  takes exactly one line off the stream: the stream is the line followed by the rest,
  the line has no line break before its end, and the request handed to the server
  carries the rest as its body, whatever the line is. For an empty file the body is
  empty, the server reads no row from it, and a load that returns leaves the database as
  it was.
\<close>

theorem header_line_consumed:
  assumes cols: "ordered_table_cols hdr = Inr cols" and f: "open_textmaybe_gz env path = Inr f"
  shows "\<exists>header rest more.
      readline f = (header, rest) \<and> f = header @ rest
    \<and> (\<exists>l e. header = l @ e \<and> LF \<notin> set l \<and> CR \<notin> set l
          \<and> (e = [LF] \<or> e = [CR, LF] \<or> (e = [CR] \<and> (rest = [] \<or> hd rest \<noteq> LF))
               \<or> (e = [] \<and> rest = [])))
    \<and> p_sent (state_of (copy_tsv env s t path tc hdr p)) =
         p_sent p @ CopyExpert (copy_sql s t cols) rest # more
    \<and> (f = [] \<longrightarrow> rest = []
          \<and> (\<forall>tb. copy_body_rows env (copy_sql s t cols) rest tb = Some [])
          \<and> (\<forall>p'. copy_tsv env s t path tc hdr p = Return () p'
                 \<longrightarrow> committed (p_conn p') = working (p_conn p)))"
proof -
  obtain header rest where hr: "readline f = (header, rest)" by (cases "readline f")
  note app = readline_append [OF hr] and shape = readline_shape [OF hr]
  from copy_tsv_trace [OF cols f, of s t tc p] hr obtain more where
    sent: "p_sent (state_of (copy_tsv env s t path tc hdr p)) =
         p_sent p @ CopyExpert (copy_sql s t cols) rest # more"
    by auto
  have empty: "rest = []
          \<and> (\<forall>tb. copy_body_rows env (copy_sql s t cols) rest tb = Some [])
          \<and> (\<forall>p'. copy_tsv env s t path tc hdr p = Return () p'
                 \<longrightarrow> committed (p_conn p') = working (p_conn p))" if "f = []"
  proof -
    from that hr have r: "rest = []" "snd (readline f) = []" by simp_all
    have b: "copy_body_rows env (copy_sql s t cols) [] tb = Some []" for tb
      by (simp add: copy_body_rows_def)
    have "committed (p_conn p') = working (p_conn p)"
      if ret: "copy_tsv env s t path tc hdr p = Return () p'" for p'
    proof -
      from copy_tsv_Return [OF ret] cols f obtain tb rows where
        "working (p_conn p) (s, t) = Some tb"
        "copy_body_rows env (copy_sql s t cols) (snd (readline f)) tb = Some rows"
        "committed (p_conn p') =
          (working (p_conn p))((s, t) \<mapsto> tb\<lparr>t_rows := t_rows tb @ rows\<rparr>)"
        by auto
      then show ?thesis by (simp add: r b map_upd_triv)
    qed
    with r b show ?thesis by simp
  qed
  from hr app shape sent empty show ?thesis by blast
qed

text \<open>
  Claim C3, amended. The header check compares the first line of the file, with its
  leading and trailing whitespace stripped, with the tab-joined expected header. It
  prints the warning exactly when the two differ, and in either case the next thing the
  loader does is to send the transfer request with the rest of the stream: the check
  never stops the load.
\<close>

theorem header_check_strips_then_load_proceeds:
  assumes cols: "ordered_table_cols hdr = Inr cols" and f: "open_textmaybe_gz env path = Inr f"
  shows "\<exists>more_out more_sent.
      p_out (state_of (copy_tsv env s t path tc hdr p)) =
        p_out p @ (if strip (fst (readline f)) = join [TAB] hdr then [] else [HeaderMismatch path])
          @ more_out
    \<and> (more_out = [] \<or> (\<exists>n. more_out = [Loaded n s t (basename path)]))
    \<and> p_sent (state_of (copy_tsv env s t path tc hdr p)) =
        p_sent p @ CopyExpert (copy_sql s t cols) (snd (readline f)) # more_sent"
  using copy_tsv_trace [OF cols f, of s t tc p] by blast

section \<open>Compressed and plain copies\<close>



section \<open>The examples, evaluated\<close>

lemma ascii_decode_char_of:
  "list_all (\<lambda>c. c < 128) t \<Longrightarrow> ascii_decode (map char_of t) = Some t"
proof -
  assume a: "list_all (\<lambda>c. c < 128) t"
  then have "\<forall>c\<in>set t. c mod 256 = c" by (auto simp add: list_all_iff)
  then have "map (\<lambda>c. of_char (char_of c :: char) :: nat) t = t"
    by (simp add: map_idI)
  moreover have "list_all (\<lambda>c. (of_char c :: nat) < 128) (map char_of t)"
    using a by (auto simp add: list_all_iff)
  ultimately show ?thesis by (simp add: ascii_decode_def comp_def)
qed

lemma example_env_open:
  assumes "map_of files path = Some t" and "list_all (\<lambda>c. c < 128) t"
    and "\<not> endswith path (str ''.gz'')"
  shows "open_textmaybe_gz (example_env files) path = Inr t"
  using assms by (simp add: open_textmaybe_gz_def open_text_def example_env_def ascii_decode_char_of)

lemma raised_None: "raised r = None \<Longrightarrow> r = Return () (state_of r)"
  by (cases r) simp_all

lemma example_ascii:
  "list_all (\<lambda>c. c < 128) example_ratings"
  "list_all (\<lambda>c. c < 128) renamed_ratings"
  "list_all (\<lambda>c. c < 128) trailing_tab_ratings"
  by (simp_all add: example_ratings_def renamed_ratings_def trailing_tab_ratings_def
      example_rows_def RATING_COLS_def str_def)

lemma example_readline:
  "readline example_ratings = (join [TAB] RATING_COLS @ [LF], example_rows)"
  "readline renamed_ratings =
     (join [TAB] [str ''id'', str ''rating'', str ''votes''] @ [LF], example_rows)"
  "readline trailing_tab_ratings = (join [TAB] RATING_COLS @ [TAB, LF], example_rows)"
  by (simp_all add: example_ratings_def renamed_ratings_def trailing_tab_ratings_def
      RATING_COLS_def str_def)

lemma example_strip:
  "strip (join [TAB] RATING_COLS @ [LF]) = join [TAB] RATING_COLS"
  "strip (join [TAB] RATING_COLS @ [TAB, LF]) = join [TAB] RATING_COLS"
  "strip (join [TAB] [str ''id'', str ''rating'', str ''votes''] @ [LF]) \<noteq> join [TAB] RATING_COLS"
  by (simp_all add: RATING_COLS_def str_def strip_def isspace_def)

lemma ratings_path_plain: "\<not> endswith ratings_path (str ''.gz'')"
  by (simp add: ratings_path_def endswith_def str_def)

lemma ratings_basename: "basename ratings_path = ratings_path"
  by (simp add: ratings_path_def basename_def str_def)

lemma rating_cols: "ordered_table_cols RATING_COLS = Inr [str ''tconst'', str ''average_rating'', str ''num_votes'']"
  by (simp add: RATING_COLS_def mapping_rating_keys)

lemma example_copy_read:
  "copy_body_rows (example_env files) stmt example_rows tb = Some example_stored_rows"
proof -
  have "example_rows \<noteq> []" by (simp add: example_rows_def)
  then show ?thesis by (simp add: copy_body_rows_def example_env_def)
qed

lemma example_stored_length: "length example_stored_rows = 2"
  by (simp add: example_stored_rows_def)

text \<open>The example load, evaluated on a state that has the table.\<close>

lemma load_example_eval:
  assumes rl: "readline text = (h, example_rows)" and ascii: "list_all (\<lambda>c. c < 128) text"
    and tb: "working (p_conn p) (str ''imdb'', str ''title_ratings'') = Some tb"
  shows "raised (load_example text p) = None"
    and "p_out (state_of (load_example text p)) =
       p_out p @ (if strip h = join [TAB] RATING_COLS then [] else [HeaderMismatch ratings_path])
         @ [Loaded (length (t_rows tb) + 2) (str ''imdb'') (str ''title_ratings'') ratings_path]"
    and "p_sent (state_of (load_example text p)) =
       p_sent p @ [CopyExpert (copy_sql (str ''imdb'') (str ''title_ratings'')
                      [str ''tconst'', str ''average_rating'', str ''num_votes'']) example_rows,
                   Execute (SelectCount (str ''imdb'') (str ''title_ratings''))]"
    and "committed (p_conn (state_of (load_example text p))) (str ''imdb'', str ''title_ratings'') =
       Some (tb\<lparr>t_rows := t_rows tb @ example_stored_rows\<rparr>)"
proof -
  have op: "open_textmaybe_gz (example_env [(ratings_path, text)]) ratings_path = Inr text"
    by (rule example_env_open) (simp_all add: ascii ratings_path_plain)
  have rf: "pg_refuses (example_env [(ratings_path, text)]) = (\<lambda>req db. False)"
    by (simp add: example_env_def)
  note unf = copy_tsv_opened [OF rating_cols op, of "str ''imdb''" "str ''title_ratings''" "[]" p,
      folded load_example_def]
  note rd = example_copy_read [of "[(ratings_path, text)]"]
  show "raised (load_example text p) = None"
    unfolding unf
    by (simp add: rl cur_request_def pg_request_def rf copy_sql_def Let_def tb rd
        print_event_def commit_def)
  show "p_out (state_of (load_example text p)) =
       p_out p @ (if strip h = join [TAB] RATING_COLS then [] else [HeaderMismatch ratings_path])
         @ [Loaded (length (t_rows tb) + 2) (str ''imdb'') (str ''title_ratings'') ratings_path]"
    unfolding unf
    by (simp add: rl cur_request_def pg_request_def rf copy_sql_def Let_def tb rd
        print_event_def commit_def example_stored_length ratings_basename)
  show "p_sent (state_of (load_example text p)) =
       p_sent p @ [CopyExpert (copy_sql (str ''imdb'') (str ''title_ratings'')
                      [str ''tconst'', str ''average_rating'', str ''num_votes'']) example_rows,
                   Execute (SelectCount (str ''imdb'') (str ''title_ratings''))]"
    unfolding unf
    by (simp add: rl cur_request_def pg_request_def rf copy_sql_def Let_def tb rd
        print_event_def commit_def)
  show "committed (p_conn (state_of (load_example text p))) (str ''imdb'', str ''title_ratings'') =
       Some (tb\<lparr>t_rows := t_rows tb @ example_stored_rows\<rparr>)"
    unfolding unf
    by (simp add: rl cur_request_def pg_request_def rf copy_sql_def Let_def tb rd
        print_event_def commit_def)
qed

lemma example_proc_table:
  "working (p_conn example_proc) (str ''imdb'', str ''title_ratings'') =
     Some \<lparr>t_columns = [str ''tconst'', str ''average_rating'', str ''num_votes''], t_rows = []\<rparr>"
  by (simp add: example_proc_def example_db_def)

lemma one_row_proc_table:
  "working (p_conn one_row_proc) (str ''imdb'', str ''title_ratings'') =
     Some \<lparr>t_columns = [str ''tconst'', str ''average_rating'', str ''num_votes''],
           t_rows = [[Some (str ''tt0000009''), Some (str ''7.0''), Some (str ''12'')]]\<rparr>"
  by (simp add: one_row_proc_def one_row_db_def)

text \<open>
  The two rows of the example body loaded into a table that holds one row: the report
  says 3.
\<close>

theorem reported_count_is_table_total_witness:
  "copy_tsv (example_env [(ratings_path, example_ratings)]) (str ''imdb'') (str ''title_ratings'')
       ratings_path [] RATING_COLS one_row_proc
     = Return () (state_of (copy_tsv (example_env [(ratings_path, example_ratings)]) (str ''imdb'')
         (str ''title_ratings'') ratings_path [] RATING_COLS one_row_proc))
   \<and> map_option (\<lambda>tb. length (t_rows tb))
        (working (p_conn one_row_proc) (str ''imdb'', str ''title_ratings'')) = Some 1
   \<and> length example_stored_rows = 2
   \<and> map_option (\<lambda>tb. length (t_rows tb))
        (committed (p_conn (state_of (copy_tsv (example_env [(ratings_path, example_ratings)])
           (str ''imdb'') (str ''title_ratings'') ratings_path [] RATING_COLS one_row_proc)))
          (str ''imdb'', str ''title_ratings'')) = Some 3
   \<and> last (p_out (state_of (copy_tsv (example_env [(ratings_path, example_ratings)]) (str ''imdb'')
         (str ''title_ratings'') ratings_path [] RATING_COLS one_row_proc)))
     = Loaded 3 (str ''imdb'') (str ''title_ratings'') ratings_path"
proof -
  let ?env = "example_env [(ratings_path, example_ratings)]"
  let ?R = "copy_tsv ?env (str ''imdb'') (str ''title_ratings'') ratings_path [] RATING_COLS
              one_row_proc"
  note ev = load_example_eval [OF example_readline(1) example_ascii(1) one_row_proc_table,
          unfolded load_example_def]
  have ret: "?R = Return () (state_of ?R)"
    by (rule raised_None) (rule ev(1))
  from reported_count_is_table_total [OF ret] obtain tb tb' cols body added where
    tb: "working (p_conn one_row_proc) (str ''imdb'', str ''title_ratings'') = Some tb"
    and tb': "committed (p_conn (state_of ?R)) (str ''imdb'', str ''title_ratings'') = Some tb'"
    and sent: "p_sent (state_of ?R) = p_sent one_row_proc
        @ [CopyExpert (copy_sql (str ''imdb'') (str ''title_ratings'') cols) body,
           Execute (SelectCount (str ''imdb'') (str ''title_ratings''))]"
    and rd: "copy_body_rows ?env (copy_sql (str ''imdb'') (str ''title_ratings'') cols) body tb
        = Some added"
    and rows: "t_rows tb' = t_rows tb @ added"
    and rep: "last (p_out (state_of ?R)) =
        Loaded (length (t_rows tb')) (str ''imdb'') (str ''title_ratings'') (basename ratings_path)"
    by blast
  from sent ev(3) have "body = example_rows" by simp
  with rd have "added = example_stored_rows" by (simp add: example_copy_read)
  moreover from tb one_row_proc_table have "length (t_rows tb) = 1" by auto
  ultimately have "length (t_rows tb') = 3" using rows example_stored_length by simp
  with rep ret tb' show ?thesis
    by (simp add: ratings_basename one_row_proc_table example_stored_length)
qed

lemma example_env_open_empty:
  "open_textmaybe_gz (example_env [(ratings_path, [])]) ratings_path = Inr []"
  by (rule example_env_open) (simp_all add: ratings_path_plain)

text \<open>A file whose header has other names, and an empty file.\<close>

theorem header_line_consumed_witness:
  "ordered_table_cols RATING_COLS = Inr [str ''tconst'', str ''average_rating'', str ''num_votes'']
   \<and> open_textmaybe_gz (example_env [(ratings_path, renamed_ratings)]) ratings_path
       = Inr renamed_ratings
   \<and> readline renamed_ratings
       = (join [TAB] [str ''id'', str ''rating'', str ''votes''] @ [LF], example_rows)
   \<and> hd (p_sent (state_of (copy_tsv (example_env [(ratings_path, renamed_ratings)]) (str ''imdb'')
         (str ''title_ratings'') ratings_path [] RATING_COLS example_proc)))
       = CopyExpert (copy_sql (str ''imdb'') (str ''title_ratings'')
           [str ''tconst'', str ''average_rating'', str ''num_votes'']) example_rows
   \<and> open_textmaybe_gz (example_env [(ratings_path, [])]) ratings_path = Inr []
   \<and> hd (p_sent (state_of (copy_tsv (example_env [(ratings_path, [])]) (str ''imdb'')
         (str ''title_ratings'') ratings_path [] RATING_COLS example_proc)))
       = CopyExpert (copy_sql (str ''imdb'') (str ''title_ratings'')
           [str ''tconst'', str ''average_rating'', str ''num_votes'']) []"
proof -
  let ?cols = "[str ''tconst'', str ''average_rating'', str ''num_votes'']"
  have op: "open_textmaybe_gz (example_env [(ratings_path, renamed_ratings)]) ratings_path
       = Inr renamed_ratings"
    by (rule example_env_open) (simp_all add: example_ascii ratings_path_plain)
  have nosent: "p_sent example_proc = []" by (simp add: example_proc_def)
  from header_line_consumed [OF rating_cols op, of "str ''imdb''" "str ''title_ratings''" "[]"
      example_proc]
  obtain header rest more where
    "readline renamed_ratings = (header, rest)"
    "p_sent (state_of (copy_tsv (example_env [(ratings_path, renamed_ratings)]) (str ''imdb'')
         (str ''title_ratings'') ratings_path [] RATING_COLS example_proc)) =
         p_sent example_proc
           @ CopyExpert (copy_sql (str ''imdb'') (str ''title_ratings'') ?cols) rest # more"
    by blast
  then have a: "hd (p_sent (state_of (copy_tsv (example_env [(ratings_path, renamed_ratings)])
         (str ''imdb'') (str ''title_ratings'') ratings_path [] RATING_COLS example_proc)))
       = CopyExpert (copy_sql (str ''imdb'') (str ''title_ratings'') ?cols) example_rows"
    by (simp add: example_readline(2) nosent)
  from header_line_consumed [OF rating_cols example_env_open_empty, of "str ''imdb''"
      "str ''title_ratings''" "[]" example_proc]
  obtain rest more where
    "rest = []"
    "p_sent (state_of (copy_tsv (example_env [(ratings_path, [])]) (str ''imdb'')
         (str ''title_ratings'') ratings_path [] RATING_COLS example_proc)) =
         p_sent example_proc
           @ CopyExpert (copy_sql (str ''imdb'') (str ''title_ratings'') ?cols) rest # more"
    by blast
  then have b: "hd (p_sent (state_of (copy_tsv (example_env [(ratings_path, [])])
         (str ''imdb'') (str ''title_ratings'') ratings_path [] RATING_COLS example_proc)))
       = CopyExpert (copy_sql (str ''imdb'') (str ''title_ratings'') ?cols) []"
    by (simp add: nosent)
  from rating_cols op example_readline(2) a example_env_open_empty b show ?thesis
    by (simp only: simp_thms)
qed

text \<open>A header with other names: the warning is printed and the load proceeds.\<close>

theorem header_check_strips_then_load_proceeds_witness:
  "ordered_table_cols RATING_COLS = Inr [str ''tconst'', str ''average_rating'', str ''num_votes'']
   \<and> open_textmaybe_gz (example_env [(ratings_path, renamed_ratings)]) ratings_path
       = Inr renamed_ratings
   \<and> strip (fst (readline renamed_ratings)) \<noteq> join [TAB] RATING_COLS
   \<and> p_out (state_of (copy_tsv (example_env [(ratings_path, renamed_ratings)]) (str ''imdb'')
         (str ''title_ratings'') ratings_path [] RATING_COLS example_proc))
       = [HeaderMismatch ratings_path,
          Loaded 2 (str ''imdb'') (str ''title_ratings'') ratings_path]
   \<and> p_sent (state_of (copy_tsv (example_env [(ratings_path, renamed_ratings)]) (str ''imdb'')
         (str ''title_ratings'') ratings_path [] RATING_COLS example_proc))
       = [CopyExpert (copy_sql (str ''imdb'') (str ''title_ratings'')
            [str ''tconst'', str ''average_rating'', str ''num_votes'']) example_rows,
          Execute (SelectCount (str ''imdb'') (str ''title_ratings''))]"
proof -
  let ?cols = "[str ''tconst'', str ''average_rating'', str ''num_votes'']"
  let ?R = "copy_tsv (example_env [(ratings_path, renamed_ratings)]) (str ''imdb'')
         (str ''title_ratings'') ratings_path [] RATING_COLS example_proc"
  have op: "open_textmaybe_gz (example_env [(ratings_path, renamed_ratings)]) ratings_path
       = Inr renamed_ratings"
    by (rule example_env_open) (simp_all add: example_ascii ratings_path_plain)
  have ne: "strip (fst (readline renamed_ratings)) \<noteq> join [TAB] RATING_COLS"
    unfolding example_readline(2) fst_conv by (rule example_strip(3))
  note ev = load_example_eval [OF example_readline(2) example_ascii(2) example_proc_table,
          unfolded load_example_def, simplified]
  have none: "p_out example_proc = []" "p_sent example_proc = []"
    by (simp_all add: example_proc_def)
  from header_check_strips_then_load_proceeds [OF rating_cols op, of "str ''imdb''"
      "str ''title_ratings''" "[]" example_proc]
  obtain more_out more_sent where
    o: "p_out (state_of ?R) = p_out example_proc
          @ (if strip (fst (readline renamed_ratings)) = join [TAB] RATING_COLS then []
             else [HeaderMismatch ratings_path]) @ more_out"
    and s: "p_sent (state_of ?R) = p_sent example_proc
          @ CopyExpert (copy_sql (str ''imdb'') (str ''title_ratings'') ?cols)
              (snd (readline renamed_ratings)) # more_sent"
    by blast
  from o ne none have o': "p_out (state_of ?R) = HeaderMismatch ratings_path # more_out" by simp
  from ev(2) example_strip(3) none
  have "p_out (state_of ?R) = [HeaderMismatch ratings_path,
          Loaded 2 (str ''imdb'') (str ''title_ratings'') ratings_path]"
    by simp
  moreover from ev(3) none have "p_sent (state_of ?R) =
       [CopyExpert (copy_sql (str ''imdb'') (str ''title_ratings'') ?cols) example_rows,
        Execute (SelectCount (str ''imdb'') (str ''title_ratings''))]"
    by simp
  ultimately show ?thesis using rating_cols op ne o' s by (simp only: simp_thms)
qed

text \<open>
  Claim C3 as stated fails: the comparison is not verbatim. The first line of this file
  is the expected header followed by a tab and the newline; without the newline it is
  not the expected header, and yet no warning is printed.
\<close>

theorem header_check_verbatim_counterexample:
  "fst (readline trailing_tab_ratings) = join [TAB] RATING_COLS @ [TAB, LF]
   \<and> join [TAB] RATING_COLS @ [TAB] \<noteq> join [TAB] RATING_COLS
   \<and> p_out (state_of (copy_tsv (example_env [(ratings_path, trailing_tab_ratings)]) (str ''imdb'')
         (str ''title_ratings'') ratings_path [] RATING_COLS example_proc))
       = [Loaded 2 (str ''imdb'') (str ''title_ratings'') ratings_path]"
proof -
  note ev = load_example_eval [OF example_readline(3) example_ascii(3) example_proc_table,
          unfolded load_example_def, simplified]
  have "p_out example_proc = []" by (simp add: example_proc_def)
  with ev(2) example_strip(2)
  have "p_out (state_of (copy_tsv (example_env [(ratings_path, trailing_tab_ratings)])
         (str ''imdb'') (str ''title_ratings'') ratings_path [] RATING_COLS example_proc))
       = [Loaded 2 (str ''imdb'') (str ''title_ratings'') ratings_path]"
    by simp
  moreover have "fst (readline trailing_tab_ratings) = join [TAB] RATING_COLS @ [TAB, LF]"
    by (simp only: example_readline(3) fst_conv)
  moreover have "join [TAB] RATING_COLS @ [TAB] \<noteq> join [TAB] RATING_COLS" by simp
  ultimately show ?thesis by (simp only: simp_thms)
qed



end
